theory Spec2Isabelle
  imports Main
begin

section \<open>Registration workflow and notification fan-out of the attendance back end\<close>

text \<open>
  The development embeds three parts of the repository:
  \<^item> \<^verbatim>\<open>app/repositories/employe_repository.py\<close>: the verification-code table and the
    pending-registration table, with their reads, writes and the expiry sweep;
  \<^item> \<^verbatim>\<open>app/services/registration_service.py\<close>: the steps of the registration workflow;
  \<^item> \<^verbatim>\<open>app/websocket/websocket.py\<close>: the per-company connection registry and the
    broadcast.

  Conventions. A \<^verbatim>\<open>datetime\<close> is an integer number of microseconds (the resolution of Python's
  \<^verbatim>\<open>datetime\<close>); every call of \<^verbatim>\<open>datetime.utcnow()\<close> is a parameter of the function that makes
  it, so two reads of the clock in one step are two parameters. A Python exception is a value of
  type \<open>error\<close>; a function that can raise returns \<open>error + 'a\<close>. A function that touches the
  database takes the database and returns it, also when it raises: each repository write
  commits on its own, so what was written before a later \<^verbatim>\<open>raise\<close> stays written.
  The text of the French messages is kept without its accents.
\<close>

subsection \<open>Time, strings, JSON values, errors\<close>

type_synonym datetime = int

definition timedelta_minutes :: "int \<Rightarrow> int" where
  "timedelta_minutes n = n * 60000000"

definition timedelta_days :: "int \<Rightarrow> int" where
  "timedelta_days n = n * 86400000000"

text \<open>\<^verbatim>\<open>str.lower()\<close> on the ASCII range.\<close>

definition lower_char :: "char \<Rightarrow> char" where
  "lower_char c =
     (case map_of (zip ''ABCDEFGHIJKLMNOPQRSTUVWXYZ'' ''abcdefghijklmnopqrstuvwxyz'') c of
        Some l \<Rightarrow> l
      | None \<Rightarrow> c)"

definition lower :: "string \<Rightarrow> string" where
  "lower s = map lower_char s"

text \<open>
  JSON values. A dictionary keeps its insertion order, as Python's \<^verbatim>\<open>dict\<close> does. The two JSON
  columns of a pending registration hold the text \<^verbatim>\<open>json.dumps(d)\<close> of a dictionary \<open>d\<close> and are
  read back with \<^verbatim>\<open>json.loads\<close>; the model stores \<open>d\<close> itself.
\<close>

datatype json =
    JNull
  | JBool bool
  | JInt int
  | JFloat string
  | JStr string
  | JArr "json list"
  | JObj "(string \<times> json) list"

type_synonym dict = "(string \<times> json) list"

text \<open>\<^verbatim>\<open>d.get(k)\<close> and \<^verbatim>\<open>d[k] = v\<close>.\<close>

definition dict_get :: "dict \<Rightarrow> string \<Rightarrow> json option" where
  "dict_get d k = map_of d k"

fun dict_set :: "dict \<Rightarrow> string \<Rightarrow> json \<Rightarrow> dict" where
  "dict_set [] k v = [(k, v)]"
| "dict_set ((k', v') # d) k v = (if k' = k then (k, v) # d else (k', v') # dict_set d k v)"

text \<open>
  The status codes of \<^verbatim>\<open>fastapi.status\<close> that the sources name, and the exceptions that the
  modelled functions raise.
\<close>

definition HTTP_400_BAD_REQUEST :: nat where "HTTP_400_BAD_REQUEST = 400"
definition HTTP_403_FORBIDDEN :: nat where "HTTP_403_FORBIDDEN = 403"
definition HTTP_404_NOT_FOUND :: nat where "HTTP_404_NOT_FOUND = 404"
definition HTTP_409_CONFLICT :: nat where "HTTP_409_CONFLICT = 409"
definition HTTP_429_TOO_MANY_REQUESTS :: nat where "HTTP_429_TOO_MANY_REQUESTS = 429"
definition HTTP_500_INTERNAL_SERVER_ERROR :: nat where "HTTP_500_INTERNAL_SERVER_ERROR = 500"

datatype error =
    HTTPException nat string
  | ValueError string
  | TypeError string
  | AttributeError string
  | ValidationError string
  | RuntimeError string
  | CancelledError string

text \<open>
  \<^verbatim>\<open>isinstance(e, Exception)\<close>. \<^verbatim>\<open>asyncio.CancelledError\<close> derives from \<^verbatim>\<open>BaseException\<close> and not
  from \<^verbatim>\<open>Exception\<close>: it is what an \<^verbatim>\<open>await\<close> raises when the task is cancelled, and a handler
  \<^verbatim>\<open>except Exception\<close> does not take it.
\<close>

fun is_exception :: "error \<Rightarrow> bool" where
  "is_exception (CancelledError m) = False"
| "is_exception e = True"

text \<open>\<^verbatim>\<open>str(e)\<close> of an exception that carries one message.\<close>

fun error_text :: "error \<Rightarrow> string" where
  "error_text (HTTPException sc detail) = detail"
| "error_text (ValueError m) = m"
| "error_text (TypeError m) = m"
| "error_text (AttributeError m) = m"
| "error_text (ValidationError m) = m"
| "error_text (RuntimeError m) = m"
| "error_text (CancelledError m) = m"

subsection \<open>The tables\<close>

text \<open>
  \<^verbatim>\<open>VerificationCodeDB\<close> and \<^verbatim>\<open>PendingRegistrationDB\<close> (\<^verbatim>\<open>app/models/models.py\<close>). The columns
  \<^verbatim>\<open>identifier\<close> and \<^verbatim>\<open>user_email\<close> are declared \<^verbatim>\<open>unique=True\<close>, so each table is a map from
  that column to the rest of the row. The columns \<^verbatim>\<open>id\<close> and \<^verbatim>\<open>created_at\<close> are never read by
  the modelled code and are left out.
\<close>

record verification_code_row =
  code :: string
  code_expires_at :: datetime

record pending_registration_row =
  personal_info_json :: "dict option"
  company_info_json :: "dict option"
  role_assigned :: "string option"
  expires_at :: datetime

type_synonym uuid = nat

record employe_row =
  employe_email :: string
  employe_employeeId :: string

record groupe_row =
  groupe_idGroupe :: uuid
  groupe_idEntreprise :: uuid

record entreprise_row =
  entreprise_idEntreprise :: uuid
  entreprise_nom :: string
  entreprise_adresse :: "string option"
  entreprise_contact_email :: "string option"

record poste_row =
  poste_idPoste :: uuid
  poste_nom :: string
  poste_idEntreprise :: uuid

record db =
  verification_code :: "string \<rightharpoonup> verification_code_row"
  pending_registration :: "string \<rightharpoonup> pending_registration_row"
  employe :: "employe_row list"
  groupe :: "groupe_row list"
  entreprise :: "entreprise_row list"
  poste :: "poste_row list"

subsection \<open>The repository\<close>

definition get_employe_by_email :: "string \<Rightarrow> db \<Rightarrow> employe_row option" where
  "get_employe_by_email email d = find (\<lambda>e. employe_email e = lower email) (employe d)"

definition get_employe_by_employee_id :: "string \<Rightarrow> db \<Rightarrow> employe_row option" where
  "get_employe_by_employee_id employee_id d =
     find (\<lambda>e. employe_employeeId e = employee_id) (employe d)"

definition get_groupe_by_id :: "uuid \<Rightarrow> db \<Rightarrow> groupe_row option" where
  "get_groupe_by_id id_groupe d = find (\<lambda>g. groupe_idGroupe g = id_groupe) (groupe d)"

text \<open>
  \<^verbatim>\<open>add_pending_registration\<close>: an existing row keeps its other columns; a new row has no company
  information and the column default \<^verbatim>\<open>"employee"\<close> as its role.
\<close>

definition add_pending_registration :: "string \<Rightarrow> dict \<Rightarrow> datetime \<Rightarrow> db \<Rightarrow> db" where
  "add_pending_registration user_email personal_info expires d =
     (case pending_registration d (lower user_email) of
        Some existing \<Rightarrow>
          d\<lparr>pending_registration := (pending_registration d)(lower user_email \<mapsto>
               existing\<lparr>personal_info_json := Some personal_info, expires_at := expires\<rparr>)\<rparr>
      | None \<Rightarrow>
          d\<lparr>pending_registration := (pending_registration d)(lower user_email \<mapsto>
               \<lparr>personal_info_json = Some personal_info, company_info_json = None,
                role_assigned = Some ''employee'', expires_at = expires\<rparr>)\<rparr>)"

text \<open>
  \<^verbatim>\<open>get_pending_registration\<close> returns the row as a dictionary of four entries, here the row
  itself, when it exists and \<^verbatim>\<open>pending.expires_at > now\<close>. It only queries; the database it
  returns is the one it was given.
\<close>

definition get_pending_registration ::
  "datetime \<Rightarrow> string \<Rightarrow> db \<Rightarrow> pending_registration_row option \<times> db" where
  "get_pending_registration now user_email d =
     (case pending_registration d (lower user_email) of
        Some pending \<Rightarrow> if expires_at pending > now then (Some pending, d) else (None, d)
      | None \<Rightarrow> (None, d))"

text \<open>
  \<^verbatim>\<open>update_pending_registration(user_email, key, value)\<close>. The three keys that the method
  handles, each with the value its callers pass.
\<close>

datatype pending_update =
    personal_info dict
  | company_info dict
  | role_assigned_to string

definition update_pending_registration :: "string \<Rightarrow> pending_update \<Rightarrow> db \<Rightarrow> error + db" where
  "update_pending_registration user_email upd d =
     (case pending_registration d (lower user_email) of
        None \<Rightarrow> Inl (ValueError (''Aucune registration en attente pour '' @ user_email))
      | Some pending \<Rightarrow>
          Inr (d\<lparr>pending_registration := (pending_registration d)(lower user_email \<mapsto>
                 (case upd of
                    personal_info v \<Rightarrow> pending\<lparr>personal_info_json := Some v\<rparr>
                  | company_info v \<Rightarrow> pending\<lparr>company_info_json := Some v\<rparr>
                  | role_assigned_to v \<Rightarrow> pending\<lparr>role_assigned := Some v\<rparr>))\<rparr>))"

definition delete_pending_registration :: "string \<Rightarrow> db \<Rightarrow> db" where
  "delete_pending_registration user_email d =
     d\<lparr>pending_registration := (pending_registration d)(lower user_email := None)\<rparr>"

definition set_verification_code :: "datetime \<Rightarrow> string \<Rightarrow> string \<Rightarrow> int \<Rightarrow> db \<Rightarrow> db" where
  "set_verification_code now email c expires_in_minutes d =
     (let expires = now + timedelta_minutes expires_in_minutes;
          identifier = lower email
      in d\<lparr>verification_code := (verification_code d)(identifier \<mapsto>
              \<lparr>code = c, code_expires_at = expires\<rparr>)\<rparr>)"

text \<open>\<^verbatim>\<open>get_verification_code\<close>: a query, and the test \<^verbatim>\<open>code_entry.expires_at > now\<close>.\<close>

definition get_verification_code :: "datetime \<Rightarrow> string \<Rightarrow> db \<Rightarrow> string option \<times> db" where
  "get_verification_code now email d =
     (case verification_code d (lower email) of
        Some code_entry \<Rightarrow>
          if code_expires_at code_entry > now then (Some (code code_entry), d) else (None, d)
      | None \<Rightarrow> (None, d))"

definition delete_verification_code :: "string \<Rightarrow> db \<Rightarrow> db" where
  "delete_verification_code email d =
     d\<lparr>verification_code := (verification_code d)(lower email := None)\<rparr>"

text \<open>
  \<^verbatim>\<open>cleanup_expired_entries\<close>: one read of the clock, then a bulk delete on each table with
  the filter \<^verbatim>\<open>expires_at < now\<close>.
\<close>

definition cleanup_expired_entries :: "datetime \<Rightarrow> db \<Rightarrow> db" where
  "cleanup_expired_entries now d =
     d\<lparr>pending_registration :=
         (\<lambda>k. case pending_registration d k of
                 Some p \<Rightarrow> if expires_at p < now then None else Some p
               | None \<Rightarrow> None),
       verification_code :=
         (\<lambda>k. case verification_code d k of
                 Some c \<Rightarrow> if code_expires_at c < now then None else Some c
               | None \<Rightarrow> None)\<rparr>"

subsection \<open>The request and response schemas\<close>

text \<open>
  \<^verbatim>\<open>PersonalInfo\<close>, \<^verbatim>\<open>UserVerification\<close>, \<^verbatim>\<open>MessageResponse\<close> of \<^verbatim>\<open>app/schemas/schemas.py\<close>, and
  the dictionary that \<^verbatim>\<open>get_pending_state\<close> returns. An \<^verbatim>\<open>expires_at\<close> of a response is the
  \<^verbatim>\<open>isoformat()\<close> text of a datetime; the model keeps the datetime.
\<close>

record PersonalInfo =
  pi_userEmail :: string
  pi_lastName :: string
  pi_firstName :: string
  pi_position :: "string option"
  pi_employeeId :: string
  pi_phoneNumber :: "string option"
  pi_password :: "string option"

record UserVerification =
  uv_email :: string
  uv_code :: string

record MessageResponse =
  message :: string
  message_expires_at :: "datetime option"

record pending_state =
  step :: string
  state_user_email :: string
  state_personal_info :: "dict option"
  state_company_info :: "dict option"
  state_role :: "string option"
  state_expires_at :: "datetime option"

definition json_of_optional :: "string option \<Rightarrow> json" where
  "json_of_optional v = (case v of None \<Rightarrow> JNull | Some s \<Rightarrow> JStr s)"

definition model_dump :: "PersonalInfo \<Rightarrow> dict" where
  "model_dump p =
     [(''userEmail'', JStr (pi_userEmail p)),
      (''lastName'', JStr (pi_lastName p)),
      (''firstName'', JStr (pi_firstName p)),
      (''position'', json_of_optional (pi_position p)),
      (''employeeId'', JStr (pi_employeeId p)),
      (''phoneNumber'', json_of_optional (pi_phoneNumber p)),
      (''password'', json_of_optional (pi_password p))]"

subsection \<open>The registration service\<close>

text \<open>
  \<^verbatim>\<open>process_personal_info\<close>. Its parameters beside the request: the outcome of the e-mail
  collaborator (\<open>None\<close> when \<^verbatim>\<open>send_email\<close> returns, the exception when it raises), the value of
  \<^verbatim>\<open>secrets.token_hex(3)\<close>, and the three reads of the clock in the order of the source.
  The \<^verbatim>\<open>try\<close> re-raises an \<^verbatim>\<open>HTTPException\<close>, turns every other \<^verbatim>\<open>Exception\<close> into a 500 and
  lets anything else pass.
  \<^verbatim>\<open>if existing_code:\<close> is Python's truth test: a code that is there and not the empty text.
\<close>

definition process_personal_info ::
  "(string \<Rightarrow> string \<Rightarrow> string \<Rightarrow> error option) \<Rightarrow> string \<Rightarrow> datetime \<Rightarrow> datetime \<Rightarrow> datetime \<Rightarrow>
   PersonalInfo \<Rightarrow> db \<Rightarrow> (error + MessageResponse) \<times> db" where
  "process_personal_info send_email token t_get t_now t_set info d =
     (if get_employe_by_email (pi_userEmail info) d \<noteq> None then
        (Inl (HTTPException HTTP_400_BAD_REQUEST ''L'email est deja enregistre''), d)
      else if get_employe_by_employee_id (pi_employeeId info) d \<noteq> None then
        (Inl (HTTPException HTTP_400_BAD_REQUEST ''L'ID d'employe est deja enregistre''), d)
      else
        (case get_verification_code t_get (pi_userEmail info) d of
           (existing_code, d0) \<Rightarrow>
             if existing_code \<noteq> None \<and> existing_code \<noteq> Some [] then
               (Inl (HTTPException HTTP_429_TOO_MANY_REQUESTS
                      ''Un code a deja ete envoye, veuillez patienter''), d0)
             else
               (let verification = token;
                    expires = t_now + timedelta_minutes 4;
                    d1 = set_verification_code t_set (pi_userEmail info) verification 4 d0;
                    d2 = add_pending_registration (pi_userEmail info) (model_dump info) expires d1;
                    subject = ''Code de verification BioTrack'';
                    body = ''Votre code de verification est : '' @ verification
                           @ [CHR 0x0A] @ ''Validite : 4 minutes.''
                in case send_email (pi_userEmail info) subject body of
                     Some (HTTPException sc detail) \<Rightarrow> (Inl (HTTPException sc detail), d2)
                   | Some e \<Rightarrow>
                       if is_exception e then
                         (Inl (HTTPException HTTP_500_INTERNAL_SERVER_ERROR
                                (''Erreur serveur : '' @ error_text e)), d2)
                       else (Inl e, d2)
                   | None \<Rightarrow>
                       (Inr \<lparr>message = ''Code envoye a '' @ pi_userEmail info,
                             message_expires_at = Some expires\<rparr>, d2))))"

text \<open>
  \<^verbatim>\<open>verify_user_email\<close>: the code is read first, the pending record second, and the code is
  deleted only after both checks. \<^verbatim>\<open>json.loads\<close> of the column is a dictionary here, so of the two
  \<^verbatim>\<open>isinstance\<close> branches only the \<^verbatim>\<open>dict\<close> one is left.
\<close>

definition verify_user_email ::
  "datetime \<Rightarrow> datetime \<Rightarrow> UserVerification \<Rightarrow> db \<Rightarrow> (error + MessageResponse) \<times> db" where
  "verify_user_email t_code t_pending verification_data d =
     (case get_verification_code t_code (uv_email verification_data) d of
        (stored_code, d0) \<Rightarrow>
          if stored_code = None \<or> stored_code = Some [] then
            (Inl (HTTPException HTTP_400_BAD_REQUEST ''Code introuvable ou expire''), d0)
          else if stored_code \<noteq> Some (uv_code verification_data) then
            (Inl (HTTPException HTTP_400_BAD_REQUEST ''Code incorrect''), d0)
          else
            (case get_pending_registration t_pending (uv_email verification_data) d0 of
               (None, d1) \<Rightarrow>
                 (Inl (HTTPException HTTP_400_BAD_REQUEST ''Inscription introuvable''), d1)
             | (Some pending, d1) \<Rightarrow>
                 (let d2 = delete_verification_code (uv_email verification_data) d1;
                      current_info =
                        (case personal_info_json pending of
                           Some personal_info_raw \<Rightarrow>
                             if personal_info_raw \<noteq> [] then personal_info_raw else []
                         | None \<Rightarrow> []);
                      current_info = dict_set current_info ''status'' (JStr ''email_verified'')
                  in case update_pending_registration (uv_email verification_data)
                            (personal_info current_info) d2 of
                       Inl e \<Rightarrow> (Inl e, d2)
                     | Inr d3 \<Rightarrow>
                         (Inr \<lparr>message =
                                 ''Email verifie, veuillez fournir les informations de l'entreprise.'',
                               message_expires_at = Some (expires_at pending)\<rparr>, d3))))"

text \<open>
  \<^verbatim>\<open>get_pending_state\<close>. The label starts as \<^verbatim>\<open>"personal_info"\<close> and four tests in a row may
  overwrite it. The last test is \<^verbatim>\<open>pending.get("personal_info_json", {}).get("status")\<close>: the key
  is always there, so the default \<^verbatim>\<open>{}\<close> is never used and a \<^verbatim>\<open>None\<close> value raises.
\<close>

definition truthy_dict :: "dict option \<Rightarrow> bool" where
  "truthy_dict v = (case v of None \<Rightarrow> False | Some x \<Rightarrow> x \<noteq> [])"

definition status_of :: "dict option \<Rightarrow> json option" where
  "status_of v = (case v of None \<Rightarrow> None | Some x \<Rightarrow> dict_get x ''status'')"

definition get_pending_state :: "datetime \<Rightarrow> string \<Rightarrow> db \<Rightarrow> (error + pending_state) \<times> db" where
  "get_pending_state now user_email d =
     (case get_pending_registration now user_email d of
        (None, d0) \<Rightarrow>
          (Inl (HTTPException HTTP_400_BAD_REQUEST ''Aucune inscription en cours''), d0)
      | (Some pending, d0) \<Rightarrow>
          (let step0 = ''personal_info'';
               step1 = (if truthy_dict (personal_info_json pending)
                           \<and> status_of (personal_info_json pending) = Some (JStr ''email_verified'')
                        then ''company_info'' else step0);
               step2 = (if truthy_dict (company_info_json pending)
                        then ''verify_company'' else step1);
               step3 = (if role_assigned pending = Some ''admin'' then ''final'' else step2)
           in case personal_info_json pending of
                None \<Rightarrow>
                  (Inl (AttributeError ''NoneType object has no attribute get''), d0)
              | Some info \<Rightarrow>
                  (let step4 = (if dict_get info ''status''
                                     = Some (JStr ''pending_fingerprint_validation'')
                                then ''fingerprint_validation'' else step3)
                   in (Inr \<lparr>step = step4,
                            state_user_email = user_email,
                            state_personal_info = personal_info_json pending,
                            state_company_info = company_info_json pending,
                            state_role = role_assigned pending,
                            state_expires_at = Some (expires_at pending)\<rparr>, d0))))"

subsection \<open>Finalisation\<close>

text \<open>
  \<^verbatim>\<open>FinalRegistrationData\<close> and the part of \<^verbatim>\<open>EmployeResponse\<close> that the last lines of
  \<^verbatim>\<open>complete_registration\<close> write. \<open>current_user\<close> is the transient \<^verbatim>\<open>EmployeDB(email=..., role=...)\<close>
  that the service hands to its collaborators.
\<close>

record FinalRegistrationData =
  fr_lastName :: string
  fr_firstName :: string
  fr_employeeId :: string
  fr_userEmail :: string
  fr_position :: "string option"
  fr_phoneNumber :: "string option"
  fr_password :: "string option"
  fr_companyName :: string
  fr_companyContactEmail :: string
  fr_idGroupe :: "uuid option"
  fr_adresse :: "string option"

record EmployeResponse =
  er_email :: string
  er_role :: string
  er_message :: "string option"
  er_expires_at :: "datetime option"

record current_user =
  cu_email :: string
  cu_role :: "string option"

record EntrepriseCreate =
  ec_nom :: string
  ec_contact_email :: "string option"
  ec_adresse :: "string option"

record PosteCreate =
  pc_nom :: string
  pc_idEntreprise :: uuid

text \<open>
  \<^verbatim>\<open>EntrepriseService.create_entreprise\<close> with \<^verbatim>\<open>EntrepriseRepository.create_entreprise\<close>, and
  \<^verbatim>\<open>PosteService.create_poste\<close> with \<^verbatim>\<open>PosteRepository.create_poste\<close>. The primary key of the new
  row is the column default \<^verbatim>\<open>uuid.uuid4\<close>; it is a parameter.
\<close>

definition get_entreprise_by_name :: "string \<Rightarrow> db \<Rightarrow> entreprise_row option" where
  "get_entreprise_by_name name d = find (\<lambda>e. entreprise_nom e = name) (entreprise d)"

definition create_entreprise ::
  "uuid \<Rightarrow> EntrepriseCreate \<Rightarrow> current_user \<Rightarrow> db \<Rightarrow> (error + entreprise_row) \<times> db" where
  "create_entreprise new_id entreprise_data cu d =
     (if cu_role cu \<noteq> Some ''admin'' then
        (Inl (HTTPException HTTP_403_FORBIDDEN ''Seul un admin peut creer une entreprise.''), d)
      else if get_entreprise_by_name (ec_nom entreprise_data) d \<noteq> None then
        (Inl (HTTPException HTTP_409_CONFLICT
               (''Entreprise avec le nom '' @ ec_nom entreprise_data @ '' existe deja.'')), d)
      else
        (let db_entreprise =
               \<lparr>entreprise_idEntreprise = new_id,
                entreprise_nom = ec_nom entreprise_data,
                entreprise_adresse = ec_adresse entreprise_data,
                entreprise_contact_email =
                  (case ec_contact_email entreprise_data of
                     Some m \<Rightarrow> if m \<noteq> [] then Some (lower m) else None
                   | None \<Rightarrow> None)\<rparr>
         in (Inr db_entreprise, d\<lparr>entreprise := entreprise d @ [db_entreprise]\<rparr>)))"

definition get_poste_by_name_and_company :: "string \<Rightarrow> uuid \<Rightarrow> db \<Rightarrow> poste_row option" where
  "get_poste_by_name_and_company nom idEntreprise d =
     find (\<lambda>p. poste_nom p = nom \<and> poste_idEntreprise p = idEntreprise) (poste d)"

definition create_poste ::
  "uuid \<Rightarrow> PosteCreate \<Rightarrow> current_user \<Rightarrow> db \<Rightarrow> (error + poste_row) \<times> db" where
  "create_poste new_id poste_data cu d =
     (if cu_role cu \<noteq> Some ''admin'' \<and> cu_role cu \<noteq> Some ''super-admin'' then
        (Inl (HTTPException HTTP_403_FORBIDDEN ''Non autorise a creer un poste.''), d)
      else if get_poste_by_name_and_company (pc_nom poste_data) (pc_idEntreprise poste_data) d
              \<noteq> None then
        (Inl (HTTPException HTTP_409_CONFLICT
               ''Un poste avec ce nom existe deja dans l'entreprise.''), d)
      else
        (let db_poste = \<lparr>poste_idPoste = new_id, poste_nom = pc_nom poste_data,
                         poste_idEntreprise = pc_idEntreprise poste_data\<rparr>
         in (Inr db_poste, d\<lparr>poste := poste d @ [db_poste]\<rparr>)))"

text \<open>
  What \<^verbatim>\<open>complete_registration\<close> binds to \<^verbatim>\<open>employe\<close>. \<^verbatim>\<open>EmployeService.create_employe\<close> is declared
  \<^verbatim>\<open>async def\<close> and line 238 of the service calls it without \<^verbatim>\<open>await\<close>: the call returns the
  coroutine object and the body of \<^verbatim>\<open>create_employe\<close> does not run. The employee end point
  (\<^verbatim>\<open>employer_controller.py\<close>, line 61) awaits the same method.
  \<^verbatim>\<open>EmployeResponse.model_validate\<close> builds the response from a dictionary or from the
  attributes of an object; a coroutine object is neither a dictionary nor an object with the
  fields of the response.
\<close>

datatype py_object =
    Coroutine
  | EmployeObject EmployeResponse

definition model_validate :: "py_object \<Rightarrow> error + EmployeResponse" where
  "model_validate obj =
     (case obj of
        Coroutine \<Rightarrow> Inl (ValidationError ''validation error for EmployeResponse'')
      | EmployeObject e \<Rightarrow> Inr e)"

text \<open>
  Lines 158 to 189: the position of a registrant who is not an administrator. \<^verbatim>\<open>PosteService\<close>
  has no method \<^verbatim>\<open>get_poste_by_name_and_company\<close> (the repository has one), so reaching line
  179 raises \<^verbatim>\<open>AttributeError\<close>. A UUID is always true in a truth test.
\<close>

definition resolve_poste ::
  "FinalRegistrationData \<Rightarrow> pending_registration_row \<Rightarrow> db \<Rightarrow> error + uuid option" where
  "resolve_poste registration_data pending d =
     (if fr_position registration_data \<noteq> None \<and> fr_position registration_data \<noteq> Some [] then
        (if role_assigned pending = Some ''admin'' then Inr None
         else
           (case fr_idGroupe registration_data of
              Some g \<Rightarrow>
                (case get_groupe_by_id g d of
                   None \<Rightarrow> Inl (HTTPException HTTP_404_NOT_FOUND ''Groupe introuvable'')
                 | Some grp \<Rightarrow>
                     Inl (AttributeError
                           ''PosteService object has no attribute get_poste_by_name_and_company''))
            | None \<Rightarrow>
                Inl (HTTPException HTTP_400_BAD_REQUEST
                      ''Groupe requis pour recuperer entreprise'')))
      else Inr None)"

text \<open>
  Lines 202 to 233: the company of the new employee. For an administrator the company is
  created, and then the position when one was named; otherwise the group gives the company.
\<close>

definition resolve_entreprise ::
  "uuid \<Rightarrow> uuid \<Rightarrow> FinalRegistrationData \<Rightarrow> pending_registration_row \<Rightarrow> uuid option \<Rightarrow> db \<Rightarrow>
   (error + unit) \<times> db" where
  "resolve_entreprise new_entreprise_id new_poste_id registration_data pending poste_id d =
     (if role_assigned pending = Some ''admin'' then
        (if fr_companyName registration_data = [] \<or> fr_companyContactEmail registration_data = []
         then (Inl (HTTPException HTTP_400_BAD_REQUEST ''Infos entreprise requises pour admin''), d)
         else
           (let entreprise_data =
                  \<lparr>ec_nom = fr_companyName registration_data,
                   ec_contact_email = Some (lower (fr_companyContactEmail registration_data)),
                   ec_adresse = fr_adresse registration_data\<rparr>;
                temp_user = \<lparr>cu_email = fr_userEmail registration_data,
                             cu_role = Some ''admin''\<rparr>
            in case create_entreprise new_entreprise_id entreprise_data temp_user d of
                 (Inl e, d1) \<Rightarrow> (Inl e, d1)
               | (Inr ent, d1) \<Rightarrow>
                   if fr_position registration_data \<noteq> None
                      \<and> fr_position registration_data \<noteq> Some [] \<and> poste_id = None
                   then
                     (case create_poste new_poste_id
                             \<lparr>pc_nom = the (fr_position registration_data),
                              pc_idEntreprise = entreprise_idEntreprise ent\<rparr> temp_user d1 of
                        (Inl e, d2) \<Rightarrow> (Inl e, d2)
                      | (Inr poste_obj, d2) \<Rightarrow> (Inr (), d2))
                   else (Inr (), d1)))
      else
        (case fr_idGroupe registration_data of
           None \<Rightarrow>
             (Inl (HTTPException HTTP_400_BAD_REQUEST ''Groupe requis pour employes non admin''), d)
         | Some g \<Rightarrow>
             (case get_groupe_by_id g d of
                None \<Rightarrow> (Inl (HTTPException HTTP_404_NOT_FOUND ''Groupe introuvable''), d)
              | Some grp \<Rightarrow> (Inr (), d))))"

text \<open>
  \<^verbatim>\<open>complete_registration\<close>. Its parameters beside the request: the two primary keys that the
  database would draw, and the two reads of the clock (in \<^verbatim>\<open>get_pending_registration\<close>, and for
  the new expiry on line 244). \<^verbatim>\<open>EmployeCreate(**employe_dict)\<close> validates fields that the
  request schema and the tables have validated already, but for \<^verbatim>\<open>role\<close>, which is the column
  \<^verbatim>\<open>role_assigned\<close> and must be a text; its value is only passed to the call that does not run.
\<close>

definition complete_registration ::
  "uuid \<Rightarrow> uuid \<Rightarrow> datetime \<Rightarrow> datetime \<Rightarrow> FinalRegistrationData \<Rightarrow> db \<Rightarrow>
   (error + EmployeResponse) \<times> db" where
  "complete_registration new_entreprise_id new_poste_id t_get t_now registration_data d =
     (case get_pending_registration t_get (fr_userEmail registration_data) d of
        (None, d0) \<Rightarrow>
          (Inl (HTTPException HTTP_400_BAD_REQUEST ''Inscription expiree ou introuvable''), d0)
      | (Some pending, d0) \<Rightarrow>
          if \<not> (truthy_dict (personal_info_json pending)
                \<and> status_of (personal_info_json pending) = Some (JStr ''email_verified''))
          then (Inl (HTTPException HTTP_400_BAD_REQUEST ''Email non verifie''), d0)
          else
            (case resolve_poste registration_data pending d0 of
               Inl e \<Rightarrow> (Inl e, d0)
             | Inr poste_id \<Rightarrow>
                 (case resolve_entreprise new_entreprise_id new_poste_id registration_data
                         pending poste_id d0 of
                    (Inl e, d1) \<Rightarrow> (Inl e, d1)
                  | (Inr u, d1) \<Rightarrow>
                      if role_assigned pending = None then
                        (Inl (ValidationError
                               ''validation error for EmployeCreate: role should be a valid string''),
                         d1)
                      else
                      (let employe = Coroutine;
                           d2 = delete_pending_registration (fr_userEmail registration_data) d1;
                           d3 = add_pending_registration (fr_userEmail registration_data)
                                  [(''status'', JStr ''pending_fingerprint_validation'')]
                                  (t_now + timedelta_days 1) d2
                       in case model_validate employe of
                            Inl e \<Rightarrow> (Inl e, d3)
                          | Inr response \<Rightarrow>
                              (Inr (response\<lparr>er_message := Some
                                      ''Inscription terminee, veuillez enregistrer votre empreinte digitale.'',
                                    er_expires_at := Some (expires_at pending)\<rparr>), d3)))))"

subsection \<open>The notification manager\<close>

text \<open>
  A Python value that a caller may put in a notification payload. \<open>PyObject t\<close> is a value of
  any other type \<open>t\<close> (a \<^verbatim>\<open>datetime\<close>, a \<^verbatim>\<open>Decimal\<close>, ...); \<open>PyUUID\<close> carries the text \<^verbatim>\<open>str(obj)\<close>.
  The keys of a payload dictionary are texts.
\<close>

datatype pyobj =
    PyNone
  | PyBool bool
  | PyInt int
  | PyFloat string
  | PyStr string
  | PyList "pyobj list"
  | PyDict "(string \<times> pyobj) list"
  | PyUUID string
  | PyObject string

text \<open>\<^verbatim>\<open>_json_default\<close>: the text of a UUID, \<^verbatim>\<open>TypeError\<close> for anything else.\<close>

fun json_default :: "pyobj \<Rightarrow> error + string" where
  "json_default (PyUUID u) = Inr u"
| "json_default obj = Inl (TypeError ''Type not serializable'')"

text \<open>
  \<^verbatim>\<open>json.dumps(payload, default=_json_default)\<close>: the encoder walks the value from left to
  right, calls the fallback on each value that is not native to JSON, and the first exception
  ends the walk. The text it produces is kept as the JSON value it denotes.
\<close>

fun json_dumps :: "pyobj \<Rightarrow> error + json"
  and dumps_list :: "pyobj list \<Rightarrow> error + json list"
  and dumps_items :: "(string \<times> pyobj) list \<Rightarrow> error + (string \<times> json) list" where
  "json_dumps PyNone = Inr JNull"
| "json_dumps (PyBool b) = Inr (JBool b)"
| "json_dumps (PyInt i) = Inr (JInt i)"
| "json_dumps (PyFloat f) = Inr (JFloat f)"
| "json_dumps (PyStr s) = Inr (JStr s)"
| "json_dumps (PyList xs) = (case dumps_list xs of Inl e \<Rightarrow> Inl e | Inr js \<Rightarrow> Inr (JArr js))"
| "json_dumps (PyDict kvs) = (case dumps_items kvs of Inl e \<Rightarrow> Inl e | Inr js \<Rightarrow> Inr (JObj js))"
| "json_dumps (PyUUID u) =
     (case json_default (PyUUID u) of Inl e \<Rightarrow> Inl e | Inr s \<Rightarrow> Inr (JStr s))"
| "json_dumps (PyObject t) =
     (case json_default (PyObject t) of Inl e \<Rightarrow> Inl e | Inr s \<Rightarrow> Inr (JStr s))"
| "dumps_list [] = Inr []"
| "dumps_list (x # xs) =
     (case json_dumps x of
        Inl e \<Rightarrow> Inl e
      | Inr j \<Rightarrow> (case dumps_list xs of Inl e \<Rightarrow> Inl e | Inr js \<Rightarrow> Inr (j # js)))"
| "dumps_items [] = Inr []"
| "dumps_items ((k, v) # kvs) =
     (case json_dumps v of
        Inl e \<Rightarrow> Inl e
      | Inr j \<Rightarrow> (case dumps_items kvs of Inl e \<Rightarrow> Inl e | Inr js \<Rightarrow> Inr ((k, j) # js)))"

text \<open>
  \<^verbatim>\<open>NotificationManager\<close>. A connection is known by its identity (a \<^verbatim>\<open>WebSocket\<close> object compares
  by identity); \<^verbatim>\<open>active_connections\<close> maps a company to the list of its connections.
\<close>

type_synonym websocket = nat

type_synonym active_connections = "string \<rightharpoonup> websocket list"

text \<open>
  The parameter of \<^verbatim>\<open>connect\<close> is a \<^verbatim>\<open>fastapi.WebSocket\<close>, the class of Starlette, which is not
  part of the repository. Its method \<^verbatim>\<open>accept\<close> is modelled after the state machine of that
  class (\<^verbatim>\<open>starlette/websockets.py\<close>): a socket is created with the application state
  \<^verbatim>\<open>CONNECTING\<close>; \<^verbatim>\<open>accept\<close> first awaits the client's connect message, which may raise, and then
  sends the accept message, which sets the application state to \<^verbatim>\<open>CONNECTED\<close> before the
  transport is awaited, which may raise too. On a socket whose application state is no longer
  \<^verbatim>\<open>CONNECTING\<close>, sending the accept message raises \<^verbatim>\<open>RuntimeError\<close>. No method sets the state back
  to \<^verbatim>\<open>CONNECTING\<close>. The outcome of the two awaits is the parameter \<open>handshake\<close>.
\<close>

datatype WebSocketState = CONNECTING | CONNECTED | DISCONNECTED | RESPONSE

datatype handshake =
    Completes
  | ReceiveRaises error
  | SendRaises error

definition accept ::
  "handshake \<Rightarrow> websocket \<Rightarrow> (websocket \<Rightarrow> WebSocketState) \<Rightarrow>
   (error + unit) \<times> (websocket \<Rightarrow> WebSocketState)" where
  "accept h ws st =
     (case st ws of
        CONNECTING \<Rightarrow>
          (case h of
             Completes \<Rightarrow> (Inr (), st(ws := CONNECTED))
           | ReceiveRaises e \<Rightarrow> (Inl e, st)
           | SendRaises e \<Rightarrow> (Inl e, st(ws := CONNECTED)))
      | CONNECTED \<Rightarrow>
          (Inl (RuntimeError
                 ''Expected ASGI message websocket.send or websocket.close, but got websocket.accept''),
           st)
      | DISCONNECTED \<Rightarrow>
          (Inl (RuntimeError ''Cannot call send once a close message has been sent.''), st)
      | RESPONSE \<Rightarrow>
          (Inl (RuntimeError
                 ''Expected ASGI message websocket.http.response.body, but got websocket.accept''),
           st))"

text \<open>
  The state that \<^verbatim>\<open>connect\<close> works on: the dictionary of the manager and the application state
  of every socket. \<^verbatim>\<open>connect\<close> awaits the handshake first; when it raises, nothing is appended.
\<close>

record manager_state =
  connections :: active_connections
  application_state :: "websocket \<Rightarrow> WebSocketState"

definition connect ::
  "handshake \<Rightarrow> string \<Rightarrow> websocket \<Rightarrow> manager_state \<Rightarrow> (error + unit) \<times> manager_state" where
  "connect h company_id ws m =
     (case accept h ws (application_state m) of
        (Inl e, st) \<Rightarrow> (Inl e, m\<lparr>application_state := st\<rparr>)
      | (Inr u, st) \<Rightarrow>
          (let conns = connections m;
               conns1 = (if conns company_id = None then conns(company_id \<mapsto> []) else conns)
           in (Inr (), \<lparr>connections = conns1(company_id \<mapsto> the (conns1 company_id) @ [ws]),
                        application_state = st\<rparr>)))"

text \<open>\<^verbatim>\<open>list.remove\<close> deletes the first occurrence, as \<open>remove1\<close> does.\<close>

definition disconnect :: "string \<Rightarrow> websocket \<Rightarrow> active_connections \<Rightarrow> active_connections" where
  "disconnect company_id ws conns =
     (case conns company_id of
        Some l \<Rightarrow>
          if ws \<in> set l then
            (let l' = remove1 ws l
             in if l' = [] then conns(company_id := None) else conns(company_id \<mapsto> l'))
          else conns
      | None \<Rightarrow> conns)"

text \<open>
  The loop of \<^verbatim>\<open>send_to_company\<close> over the copy \<^verbatim>\<open>list(self.active_connections[company_id])\<close>.
  \<open>send_text ws text\<close> is the outcome of \<^verbatim>\<open>await ws.send_text(text)\<close>. The accumulator holds the
  list \<^verbatim>\<open>disconnected\<close> and the texts that were delivered, in order. The handler is
  \<^verbatim>\<open>except Exception\<close>: it takes an exception of the serialisation or of the delivery that is an
  \<^verbatim>\<open>Exception\<close>; any other one ends the loop and leaves the function.
\<close>

fun broadcast ::
  "(websocket \<Rightarrow> json \<Rightarrow> error option) \<Rightarrow> string \<Rightarrow> pyobj \<Rightarrow> websocket list \<Rightarrow>
   websocket list \<times> (websocket \<times> json) list \<Rightarrow>
   error + websocket list \<times> (websocket \<times> json) list" where
  "broadcast send_text event data [] acc = Inr acc"
| "broadcast send_text event data (ws # rest) (disconnected, delivered) =
     (case json_dumps (PyDict [(''event'', PyStr event), (''data'', data)]) of
        Inl e \<Rightarrow>
          if is_exception e
          then broadcast send_text event data rest (disconnected @ [ws], delivered)
          else Inl e
      | Inr text \<Rightarrow>
          (case send_text ws text of
             Some e \<Rightarrow>
               if is_exception e
               then broadcast send_text event data rest (disconnected @ [ws], delivered)
               else Inl e
           | None \<Rightarrow>
               broadcast send_text event data rest (disconnected, delivered @ [(ws, text)])))"

text \<open>
  \<^verbatim>\<open>send_to_company\<close> returns \<^verbatim>\<open>None\<close>; the model returns the dictionary after the call and the
  deliveries made. When an exception leaves the loop, the second loop, which disconnects, is
  not run: the dictionary is then the one before the call.
\<close>

definition send_to_company ::
  "(websocket \<Rightarrow> json \<Rightarrow> error option) \<Rightarrow> string \<Rightarrow> string \<Rightarrow> pyobj \<Rightarrow> active_connections \<Rightarrow>
   error + active_connections \<times> (websocket \<times> json) list" where
  "send_to_company send_text company_id event data conns =
     (case conns company_id of
        Some l \<Rightarrow>
          (case broadcast send_text event data l ([], []) of
             Inl e \<Rightarrow> Inl e
           | Inr (disconnected, delivered) \<Rightarrow>
               Inr (fold (disconnect company_id) disconnected conns, delivered))
      | None \<Rightarrow> Inr (conns, []))"

subsection \<open>Notions used to state the properties\<close>

text \<open>
  The label of \<^verbatim>\<open>get_pending_state\<close> as a chain of priorities: fingerprint validation first,
  then the administrator role, then company information that is there (Python's truth test: a
  dictionary that is not empty), then a verified e-mail, then the default.
\<close>

definition priority_step :: "pending_registration_row \<Rightarrow> string" where
  "priority_step p =
     (if status_of (personal_info_json p) = Some (JStr ''pending_fingerprint_validation'')
        then ''fingerprint_validation''
      else if role_assigned p = Some ''admin'' then ''final''
      else if truthy_dict (company_info_json p) then ''verify_company''
      else if status_of (personal_info_json p) = Some (JStr ''email_verified'') then ''company_info''
      else ''personal_info'')"

text \<open>
  A delivery attempt of one broadcast succeeds for a connection when the payload serialises
  and \<^verbatim>\<open>send_text\<close> returns. It escapes the handler when the payload serialises and
  \<^verbatim>\<open>send_text\<close> raises something that is not an \<^verbatim>\<open>Exception\<close>.
\<close>

definition delivers ::
  "(websocket \<Rightarrow> json \<Rightarrow> error option) \<Rightarrow> string \<Rightarrow> pyobj \<Rightarrow> websocket \<Rightarrow> bool" where
  "delivers send_text event data ws =
     (case json_dumps (PyDict [(''event'', PyStr event), (''data'', data)]) of
        Inl e \<Rightarrow> False
      | Inr text \<Rightarrow> send_text ws text = None)"

definition escapes ::
  "(websocket \<Rightarrow> json \<Rightarrow> error option) \<Rightarrow> string \<Rightarrow> pyobj \<Rightarrow> websocket \<Rightarrow> bool" where
  "escapes send_text event data ws =
     (case json_dumps (PyDict [(''event'', PyStr event), (''data'', data)]) of
        Inl e \<Rightarrow> False
      | Inr text \<Rightarrow>
          (case send_text ws text of None \<Rightarrow> False | Some e \<Rightarrow> \<not> is_exception e))"

text \<open>A payload contains a value that is neither native to JSON nor a UUID.\<close>

fun unserializable :: "pyobj \<Rightarrow> bool"
  and unserializable_list :: "pyobj list \<Rightarrow> bool"
  and unserializable_items :: "(string \<times> pyobj) list \<Rightarrow> bool" where
  "unserializable (PyObject t) = True"
| "unserializable (PyList xs) = unserializable_list xs"
| "unserializable (PyDict kvs) = unserializable_items kvs"
| "unserializable PyNone = False"
| "unserializable (PyBool b) = False"
| "unserializable (PyInt i) = False"
| "unserializable (PyFloat f) = False"
| "unserializable (PyStr s) = False"
| "unserializable (PyUUID u) = False"
| "unserializable_list [] = False"
| "unserializable_list (x # xs) = (unserializable x \<or> unserializable_list xs)"
| "unserializable_items [] = False"
| "unserializable_items ((k, v) # kvs) = (unserializable v \<or> unserializable_items kvs)"

text \<open>
  The invariant of the registry: no list holds a connection twice, and the lists of two
  companies share no connection. A connection is registered when some list holds it. The
  invariant of the manager with its sockets adds that the handshake of a registered connection
  is behind it.
\<close>

definition registry_inv :: "active_connections \<Rightarrow> bool" where
  "registry_inv conns =
     ((\<forall>c l. conns c = Some l \<longrightarrow> distinct l)
      \<and> (\<forall>c c' l l'. c \<noteq> c' \<and> conns c = Some l \<and> conns c' = Some l' \<longrightarrow> set l \<inter> set l' = {}))"

definition registered :: "active_connections \<Rightarrow> websocket \<Rightarrow> bool" where
  "registered conns ws = (\<exists>c l. conns c = Some l \<and> ws \<in> set l)"

definition manager_inv :: "manager_state \<Rightarrow> bool" where
  "manager_inv m =
     (registry_inv (connections m)
      \<and> (\<forall>ws. registered (connections m) ws \<longrightarrow> application_state m ws \<noteq> CONNECTING))"

text \<open>
  Sequences of calls on one manager. A \<open>Connect\<close> carries the outcome of the awaits of the
  handshake, a \<open>SendToCompany\<close> the outcomes of the deliveries. The manager starts with an empty
  dictionary, whatever the states of the sockets.
\<close>

datatype ws_op =
    Connect handshake string websocket
  | Disconnect string websocket
  | SendToCompany "websocket \<Rightarrow> json \<Rightarrow> error option" string string pyobj

fun apply_op :: "manager_state \<Rightarrow> ws_op \<Rightarrow> manager_state" where
  "apply_op m (Connect h c ws) = snd (connect h c ws m)"
| "apply_op m (Disconnect c ws) = m\<lparr>connections := disconnect c ws (connections m)\<rparr>"
| "apply_op m (SendToCompany send_text c event data) =
     (case send_to_company send_text c event data (connections m) of
        Inl e \<Rightarrow> m
      | Inr (conns', delivered) \<Rightarrow> m\<lparr>connections := conns'\<rparr>)"

fun run :: "manager_state \<Rightarrow> ws_op list \<Rightarrow> manager_state" where
  "run m [] = m"
| "run m (x # ops) = run (apply_op m x) ops"

definition new_manager :: "(websocket \<Rightarrow> WebSocketState) \<Rightarrow> manager_state" where
  "new_manager st = \<lparr>connections = Map.empty, application_state = st\<rparr>"

text \<open>No company is entered with an empty list.\<close>

definition no_empty_entry :: "active_connections \<Rightarrow> bool" where
  "no_empty_entry conns = (\<forall>c. conns c \<noteq> Some [])"

text \<open>The entry of a company whose list is \<open>l\<close>: no entry for the empty list.\<close>

definition entry_of :: "websocket list \<Rightarrow> websocket list option" where
  "entry_of l = (if l = [] then None else Some l)"

subsection \<open>Example data\<close>

definition empty_db :: db where
  "empty_db = \<lparr>verification_code = Map.empty, pending_registration = Map.empty, employe = [],
     groupe = [], entreprise = [], poste = []\<rparr>"

definition example_info :: PersonalInfo where
  "example_info = \<lparr>pi_userEmail = ''A@x.com'', pi_lastName = ''Doe'', pi_firstName = ''Ann'',
     pi_position = None, pi_employeeId = ''E1'', pi_phoneNumber = None, pi_password = None\<rparr>"

definition mail_ok :: "string \<Rightarrow> string \<Rightarrow> string \<Rightarrow> error option" where
  "mail_ok receiver subject body = None"

definition db_with_employe :: db where
  "db_with_employe =
     empty_db\<lparr>employe := [\<lparr>employe_email = ''a@x.com'', employe_employeeId = ''E7''\<rparr>]\<rparr>"

definition db_with_code :: "datetime \<Rightarrow> db" where
  "db_with_code t = empty_db\<lparr>verification_code :=
     [''a@x.com'' \<mapsto> \<lparr>code = ''a1b2c3'', code_expires_at = t\<rparr>]\<rparr>"

definition db_code_pending :: db where
  "db_code_pending = empty_db\<lparr>
     verification_code := [''a@x.com'' \<mapsto> \<lparr>code = ''a1b2c3'', code_expires_at = 240\<rparr>],
     pending_registration := [''a@x.com'' \<mapsto>
        \<lparr>personal_info_json = Some [(''userEmail'', JStr ''a@x.com'')], company_info_json = None,
         role_assigned = Some ''employee'', expires_at = 240\<rparr>]\<rparr>"

definition db_admin_pending :: db where
  "db_admin_pending = empty_db\<lparr>pending_registration := [''a@x.com'' \<mapsto>
     \<lparr>personal_info_json = Some [(''status'', JStr ''email_verified'')],
      company_info_json = Some [(''companyName'', JStr ''Acme'')],
      role_assigned = Some ''admin'', expires_at = 9\<rparr>]\<rparr>"

definition verified_db :: db where
  "verified_db = empty_db\<lparr>
     pending_registration := [''a@x.com'' \<mapsto>
        \<lparr>personal_info_json = Some [(''userEmail'', JStr ''a@x.com''), (''employeeId'', JStr ''E1''),
                                    (''status'', JStr ''email_verified'')],
         company_info_json = None, role_assigned = Some ''employee'', expires_at = 1000\<rparr>],
     groupe := [\<lparr>groupe_idGroupe = 1, groupe_idEntreprise = 10\<rparr>]\<rparr>"

definition final_data :: FinalRegistrationData where
  "final_data = \<lparr>fr_lastName = ''Doe'', fr_firstName = ''Ann'', fr_employeeId = ''E1'',
     fr_userEmail = ''a@x.com'', fr_position = None, fr_phoneNumber = None, fr_password = None,
     fr_companyName = ''Acme'', fr_companyContactEmail = ''b@x.com'', fr_idGroupe = Some 1,
     fr_adresse = None\<rparr>"

definition flaky :: "websocket \<Rightarrow> json \<Rightarrow> error option" where
  "flaky ws text = (if ws = 2 then Some (RuntimeError ''connection closed'') else None)"

definition healthy :: "websocket \<Rightarrow> json \<Rightarrow> error option" where
  "healthy ws text = None"

definition cancelled :: "websocket \<Rightarrow> json \<Rightarrow> error option" where
  "cancelled ws text = (if ws = 2 then Some (CancelledError []) else None)"

definition fresh_sockets :: "websocket \<Rightarrow> WebSocketState" where
  "fresh_sockets ws = CONNECTING"

section \<open>Properties\<close>

subsection \<open>Shared lemmas\<close>

lemma lower_example: "lower ''A@x.com'' = ''a@x.com'' \<and> lower ''a@x.com'' = ''a@x.com''"
  by (simp add: lower_def lower_char_def)

lemma json_dumps_unserializable:
  "(unserializable v \<longrightarrow> json_dumps v = Inl (TypeError ''Type not serializable''))
   \<and> (\<not> unserializable v \<longrightarrow> (\<exists>j. json_dumps v = Inr j))"
  "(unserializable_list vs \<longrightarrow> dumps_list vs = Inl (TypeError ''Type not serializable''))
   \<and> (\<not> unserializable_list vs \<longrightarrow> (\<exists>js. dumps_list vs = Inr js))"
  "(unserializable_items kvs \<longrightarrow> dumps_items kvs = Inl (TypeError ''Type not serializable''))
   \<and> (\<not> unserializable_items kvs \<longrightarrow> (\<exists>js. dumps_items kvs = Inr js))"
  by (induction v and vs and kvs rule: json_dumps_dumps_list_dumps_items.induct)
     (auto split: sum.splits)

text \<open>The only exception of the serialisation is the \<^verbatim>\<open>TypeError\<close> of the fallback.\<close>

lemma json_dumps_Inl:
  "json_dumps v = Inl e \<Longrightarrow> e = TypeError ''Type not serializable''"
  using json_dumps_unserializable(1) [of v] by (cases "unserializable v") auto

text \<open>
  When no attempt escapes the handler, the loop splits the copy of the list: the connections
  whose attempt failed go to \<^verbatim>\<open>disconnected\<close>, the others receive the text, both in the order
  of the list.
\<close>

lemma broadcast_filter:
  "\<forall>ws\<in>set l. \<not> escapes st ev data ws \<Longrightarrow>
   broadcast st ev data l (dis, del) =
     Inr (dis @ filter (\<lambda>ws. \<not> delivers st ev data ws) l,
          del @ map (\<lambda>ws. (ws, projr (json_dumps (PyDict [(''event'', PyStr ev), (''data'', data)]))))
                  (filter (delivers st ev data) l))"
proof (induction l arbitrary: dis del)
  case Nil
  then show ?case by simp
next
  case (Cons w l)
  have rest: "\<forall>ws\<in>set l. \<not> escapes st ev data ws" using Cons.prems by simp
  have w: "\<not> escapes st ev data w" using Cons.prems by simp
  show ?case
  proof (cases "json_dumps (PyDict [(''event'', PyStr ev), (''data'', data)])")
    case (Inl e)
    from json_dumps_Inl [OF Inl] have "is_exception e" by simp
    then show ?thesis using Inl Cons.IH [OF rest] by (simp add: delivers_def)
  next
    case (Inr js)
    show ?thesis
    proof (cases "st w js")
      case None
      then show ?thesis using Inr Cons.IH [OF rest] by (simp add: delivers_def)
    next
      case (Some e)
      then have "is_exception e" using w Inr by (simp add: escapes_def)
      then show ?thesis using Inr Some Cons.IH [OF rest] by (simp add: delivers_def)
    qed
  qed
qed

text \<open>The first attempt that escapes the handler ends the loop with its exception.\<close>

lemma broadcast_escapes:
  assumes "\<forall>x\<in>set pre. \<not> escapes st ev data x"
      and "json_dumps (PyDict [(''event'', PyStr ev), (''data'', data)]) = Inr js"
      and "st ws js = Some e" and "\<not> is_exception e"
  shows "broadcast st ev data (pre @ ws # rest) acc = Inl e"
  using assms(1)
proof (induction pre arbitrary: acc)
  case Nil
  obtain dis del where "acc = (dis, del)" by (cases acc)
  then show ?case using assms(2-4) by simp
next
  case (Cons x pre)
  obtain dis del where acc: "acc = (dis, del)" by (cases acc)
  have x: "\<not> escapes st ev data x" and pre: "\<forall>y\<in>set pre. \<not> escapes st ev data y"
    using Cons.prems by simp_all
  show ?case
  proof (cases "st x js")
    case None
    then show ?thesis using acc assms(2) Cons.IH [OF pre] by simp
  next
    case (Some e')
    then have "is_exception e'" using x assms(2) by (simp add: escapes_def)
    then show ?thesis using acc assms(2) Some Cons.IH [OF pre] by simp
  qed
qed

text \<open>What leaves the loop is never an \<^verbatim>\<open>Exception\<close>.\<close>

lemma broadcast_Inl:
  "broadcast st ev data l acc = Inl e \<Longrightarrow> \<not> is_exception e"
proof (induction l arbitrary: acc)
  case Nil
  then show ?case by simp
next
  case (Cons w l)
  obtain dis del where acc: "acc = (dis, del)" by (cases acc)
  show ?case
    using Cons.prems Cons.IH unfolding acc
    by (auto split: sum.splits option.splits if_splits)
qed

lemma disconnect_entry:
  "conns c = entry_of l \<Longrightarrow> disconnect c ws conns = conns(c := entry_of (remove1 ws l))"
  by (auto simp: disconnect_def entry_of_def Let_def remove1_idem split: option.splits if_splits)

lemma fold_disconnect:
  "conns c = entry_of l \<Longrightarrow>
   fold (disconnect c) ws conns = conns(c := entry_of (fold remove1 ws l))"
proof (induction ws arbitrary: conns l)
  case Nil
  then show ?case by auto
next
  case (Cons w ws)
  have step: "disconnect c w conns = conns(c := entry_of (remove1 w l))"
    using Cons.prems by (rule disconnect_entry)
  have "fold (disconnect c) ws (conns(c := entry_of (remove1 w l)))
          = (conns(c := entry_of (remove1 w l)))(c := entry_of (fold remove1 ws (remove1 w l)))"
    by (rule Cons.IH) simp
  then show ?case using step by simp
qed

text \<open>
  Removing, one first occurrence at a time, every element of \<open>l\<close> that fails \<open>P\<close> leaves the
  elements that satisfy \<open>P\<close>; the prefix \<open>pre\<close> generalises the statement for the induction.
\<close>

lemma fold_remove1_filter:
  "\<forall>x\<in>set pre. P x \<Longrightarrow> fold remove1 (filter (\<lambda>x. \<not> P x) l) (pre @ l) = pre @ filter P l"
proof (induction l arbitrary: pre)
  case Nil
  then show ?case by simp
next
  case (Cons x l)
  show ?case
  proof (cases "P x")
    case True
    then have "\<forall>y\<in>set (pre @ [x]). P y" using Cons.prems by simp
    from Cons.IH [OF this] True show ?thesis by simp
  next
    case False
    then have "x \<notin> set pre" using Cons.prems by auto
    then have "remove1 x (pre @ x # l) = pre @ l" by (simp add: remove1_append)
    with Cons.IH [OF Cons.prems] False show ?thesis by simp
  qed
qed

lemma send_to_company_Some:
  assumes "conns c = Some l" and "l \<noteq> []" and "\<forall>ws\<in>set l. \<not> escapes st ev data ws"
  shows "send_to_company st c ev data conns =
           Inr (conns(c := entry_of (filter (delivers st ev data) l)),
                map (\<lambda>ws. (ws, projr (json_dumps (PyDict [(''event'', PyStr ev), (''data'', data)]))))
                  (filter (delivers st ev data) l))"
proof -
  have e: "conns c = entry_of l" using assms by (simp add: entry_of_def)
  have "fold remove1 (filter (\<lambda>ws. \<not> delivers st ev data ws) l) ([] @ l)
          = [] @ filter (delivers st ev data) l"
    by (rule fold_remove1_filter) simp
  then show ?thesis
    using assms(1) fold_disconnect [where conns = conns and c = c and l = l
        and ws = "filter (\<lambda>ws. \<not> delivers st ev data ws) l", OF e]
      broadcast_filter [OF assms(3), of "[]" "[]"]
    by (simp add: send_to_company_def)
qed

lemma send_to_company_Inl:
  "send_to_company st c ev data conns = Inl e \<Longrightarrow> \<not> is_exception e"
  by (auto simp: send_to_company_def split: option.splits sum.splits dest: broadcast_Inl)

text \<open>\<^verbatim>\<open>disconnect\<close> registers nothing, and keeps the invariant of the registry.\<close>

lemma registered_disconnect:
  "registered (disconnect c ws conns) x \<Longrightarrow> registered conns x"
proof (cases "conns c")
  case None
  assume "registered (disconnect c ws conns) x"
  then show ?thesis using None by (simp add: disconnect_def)
next
  case (Some l)
  assume r: "registered (disconnect c ws conns) x"
  have sub: "set (remove1 ws l) \<subseteq> set l" by (rule set_remove1_subset)
  from r obtain k l' where k: "disconnect c ws conns k = Some l'" and x: "x \<in> set l'"
    by (auto simp: registered_def)
  show ?thesis
  proof (cases "k = c")
    case True
    then have "x \<in> set l" using k x Some sub
      by (auto simp: disconnect_def Let_def split: if_splits)
    then show ?thesis using Some by (auto simp: registered_def)
  next
    case False
    then have "conns k = Some l'" using k Some
      by (auto simp: disconnect_def Let_def split: if_splits)
    then show ?thesis using x by (auto simp: registered_def)
  qed
qed

lemma registered_fold_disconnect:
  "registered (fold (disconnect c) ws conns) x \<Longrightarrow> registered conns x"
  by (induction ws arbitrary: conns) (auto dest: registered_disconnect)

lemma registry_inv_disconnect:
  assumes "registry_inv conns"
  shows "registry_inv (disconnect c ws conns)"
proof (cases "conns c")
  case None
  then show ?thesis using assms by (simp add: disconnect_def)
next
  case (Some l)
  have sub: "set (remove1 ws l) \<subseteq> set l" by (rule set_remove1_subset)
  have d: "distinct (remove1 ws l)" using assms Some by (simp add: registry_inv_def)
  show ?thesis
    unfolding registry_inv_def disconnect_def Let_def Some option.case
    using assms Some sub d
    by (auto simp: registry_inv_def split: if_splits) blast+
qed

lemma registry_inv_fold_disconnect:
  "registry_inv conns \<Longrightarrow> registry_inv (fold (disconnect c) ws conns)"
  by (induction ws arbitrary: conns) (auto intro: registry_inv_disconnect)

text \<open>
  Appending a connection that is not registered keeps the invariant of the registry; the
  handshake returns only for a socket in the state \<^verbatim>\<open>CONNECTING\<close>, and leaves it \<^verbatim>\<open>CONNECTED\<close>.
\<close>

lemma registry_inv_append:
  assumes "registry_inv conns" and "\<not> registered conns ws"
  shows "registry_inv
           ((if conns c = None then conns(c \<mapsto> []) else conns)
              (c \<mapsto> the ((if conns c = None then conns(c \<mapsto> []) else conns) c) @ [ws]))"
  using assms
  unfolding registry_inv_def registered_def
  by (auto split: option.splits if_splits) blast+

lemma registered_append:
  "registered
     ((if conns c = None then conns(c \<mapsto> []) else conns)
        (c \<mapsto> the ((if conns c = None then conns(c \<mapsto> []) else conns) c) @ [ws])) x
   \<Longrightarrow> x = ws \<or> registered conns x"
  unfolding registered_def
  by (auto split: option.splits if_splits)

lemma accept_Inr:
  "accept h ws st = (Inr u, st') \<Longrightarrow> st ws = CONNECTING \<and> st' = st(ws := CONNECTED)"
  by (auto simp: accept_def split: WebSocketState.splits handshake.splits)

lemma accept_state:
  "accept h ws st = (r, st') \<Longrightarrow> st x \<noteq> CONNECTING \<Longrightarrow> st' x \<noteq> CONNECTING"
  by (auto simp: accept_def split: WebSocketState.splits handshake.splits if_splits)

lemma manager_inv_connect:
  assumes "manager_inv m"
  shows "manager_inv (snd (connect h c ws m))"
proof (cases "accept h ws (application_state m)")
  case (Pair r st)
  have keep: "\<And>x. application_state m x \<noteq> CONNECTING \<Longrightarrow> st x \<noteq> CONNECTING"
    using Pair by (rule accept_state)
  show ?thesis
  proof (cases r)
    case (Inl e)
    then have "snd (connect h c ws m) = m\<lparr>application_state := st\<rparr>"
      using Pair by (simp add: connect_def)
    then show ?thesis using assms keep by (auto simp: manager_inv_def)
  next
    case (Inr u)
    then have a: "application_state m ws = CONNECTING" and st: "st = (application_state m)(ws := CONNECTED)"
      using Pair accept_Inr [of h ws "application_state m" u st] by simp_all
    have fresh: "\<not> registered (connections m) ws"
      using assms a by (auto simp: manager_inv_def)
    have s: "snd (connect h c ws m) =
        \<lparr>connections =
           (if connections m c = None then (connections m)(c \<mapsto> []) else connections m)
             (c \<mapsto> the ((if connections m c = None then (connections m)(c \<mapsto> [])
                           else connections m) c) @ [ws]),
         application_state = st\<rparr>"
      using Pair Inr by (simp add: connect_def Let_def)
    have i: "registry_inv (connections (snd (connect h c ws m)))"
      unfolding s using assms fresh by (simp add: manager_inv_def registry_inv_append)
    have "\<And>x. registered (connections (snd (connect h c ws m))) x \<Longrightarrow> st x \<noteq> CONNECTING"
    proof -
      fix x
      assume "registered (connections (snd (connect h c ws m))) x"
      then have "x = ws \<or> registered (connections m) x"
        unfolding s by (auto dest: registered_append)
      then show "st x \<noteq> CONNECTING"
        using st assms by (auto simp: manager_inv_def)
    qed
    then show ?thesis using i unfolding manager_inv_def by (simp add: s)
  qed
qed

lemma manager_inv_apply_op:
  assumes "manager_inv m"
  shows "manager_inv (apply_op m x)"
proof (cases x)
  case (Connect h c ws)
  then show ?thesis using assms by (simp add: manager_inv_connect)
next
  case (Disconnect c ws)
  then show ?thesis using assms
    by (auto simp: manager_inv_def registry_inv_disconnect dest: registered_disconnect)
next
  case (SendToCompany st c ev data)
  then show ?thesis using assms
    by (auto simp: manager_inv_def send_to_company_def registry_inv_fold_disconnect
          split: option.splits sum.splits dest: registered_fold_disconnect)
qed

lemma manager_inv_run:
  "manager_inv m \<Longrightarrow> manager_inv (run m ops)"
  by (induction ops arbitrary: m) (auto intro: manager_inv_apply_op)

lemma manager_inv_new: "manager_inv (new_manager st)"
  by (simp add: manager_inv_def new_manager_def registry_inv_def registered_def)

text \<open>
  The registries that the three operations build from the empty one enter no company with an
  empty list, whatever the connections and the outcomes of the handshakes and deliveries.
\<close>

lemma no_empty_entry_disconnect:
  "no_empty_entry conns \<Longrightarrow> no_empty_entry (disconnect c ws conns)"
  by (auto simp: no_empty_entry_def disconnect_def Let_def split: option.splits)

lemma no_empty_entry_fold_disconnect:
  "no_empty_entry conns \<Longrightarrow> no_empty_entry (fold (disconnect c) ws conns)"
  by (induction ws arbitrary: conns) (auto intro: no_empty_entry_disconnect)

lemma no_empty_entry_apply_op:
  assumes "no_empty_entry (connections m)"
  shows "no_empty_entry (connections (apply_op m x))"
proof (cases x)
  case (Connect h c ws)
  then show ?thesis using assms
    by (auto simp: no_empty_entry_def connect_def Let_def split: prod.splits sum.splits)
next
  case (Disconnect c ws)
  then show ?thesis using assms by (simp add: no_empty_entry_disconnect)
next
  case (SendToCompany st c ev data)
  then show ?thesis using assms
    by (auto simp: send_to_company_def no_empty_entry_fold_disconnect
          split: option.splits sum.splits)
qed

lemma no_empty_entry_run:
  "no_empty_entry (connections m) \<Longrightarrow> no_empty_entry (connections (run m ops))"
  by (induction ops arbitrary: m) (auto intro: no_empty_entry_apply_op)

lemma no_empty_entry_reachable: "no_empty_entry (connections (run (new_manager st) ops))"
  by (rule no_empty_entry_run) (simp add: no_empty_entry_def new_manager_def)

text \<open>
  The sweep, entry by entry: an entry goes exactly when its expiry is strictly before the
  time of the sweep, and the other tables are not touched.
\<close>

lemma cleanup_expired_entries_strict:
  "verification_code (cleanup_expired_entries now d) k =
     (case verification_code d k of
        None \<Rightarrow> None
      | Some c \<Rightarrow> if code_expires_at c < now then None else Some c)
   \<and> pending_registration (cleanup_expired_entries now d) k =
     (case pending_registration d k of
        None \<Rightarrow> None
      | Some p \<Rightarrow> if expires_at p < now then None else Some p)
   \<and> employe (cleanup_expired_entries now d) = employe d
   \<and> groupe (cleanup_expired_entries now d) = groupe d
   \<and> entreprise (cleanup_expired_entries now d) = entreprise d
   \<and> poste (cleanup_expired_entries now d) = poste d"
  by (simp add: cleanup_expired_entries_def)

text \<open>No call of \<^verbatim>\<open>complete_registration\<close> returns: every path ends in a \<^verbatim>\<open>raise\<close>.\<close>

lemma complete_registration_never_returns:
  "fst (complete_registration new_entreprise_id new_poste_id t_get t_now registration_data d)
     \<noteq> Inr r"
  by (auto simp: complete_registration_def model_validate_def Let_def
        split: prod.splits option.splits sum.splits if_splits)

text \<open>
  A call that gets past the checks and the company step has replaced the pending record by
  the marker, with the expiry one day after the second read of the clock, and ends in the
  validation error of the response.
\<close>

lemma complete_registration_marker:
  assumes "complete_registration new_entreprise_id new_poste_id t_get t_now registration_data d
             = (Inl (ValidationError ''validation error for EmployeResponse''), d')"
  shows "pending_registration d' (lower (fr_userEmail registration_data))
           = Some \<lparr>personal_info_json = Some [(''status'', JStr ''pending_fingerprint_validation'')],
                   company_info_json = None, role_assigned = Some ''employee'',
                   expires_at = t_now + timedelta_days 1\<rparr>"
  using assms
  by (auto simp: complete_registration_def model_validate_def Let_def resolve_poste_def
        resolve_entreprise_def create_entreprise_def create_poste_def
        delete_pending_registration_def add_pending_registration_def
        HTTP_400_BAD_REQUEST_def HTTP_403_FORBIDDEN_def HTTP_404_NOT_FOUND_def
        HTTP_409_CONFLICT_def
        split: prod.splits option.splits sum.splits if_splits)

text \<open>
  Two calls for the same request: after a first call that succeeded with a code that is not
  the empty text, the same request is turned down with status 429 as long as the time of its
  read is before the expiry of that code, and goes through from the expiry on when the e-mail
  collaborator returns.
\<close>

lemma process_personal_info_twice:
  assumes first: "process_personal_info send_email token t_get t_now t_set info d = (Inr r, d1)"
      and tok: "token \<noteq> []"
  shows "(t' < t_set + timedelta_minutes 4 \<longrightarrow>
            process_personal_info send_email' token' t' t_now' t_set' info d1
              = (Inl (HTTPException HTTP_429_TOO_MANY_REQUESTS
                       ''Un code a deja ete envoye, veuillez patienter''), d1))
         \<and> (t_set + timedelta_minutes 4 \<le> t'
             \<and> send_email' (pi_userEmail info) ''Code de verification BioTrack''
                  (''Votre code de verification est : '' @ token' @ [CHR 0x0A]
                   @ ''Validite : 4 minutes.'') = None \<longrightarrow>
            fst (process_personal_info send_email' token' t' t_now' t_set' info d1)
              = Inr \<lparr>message = ''Code envoye a '' @ pi_userEmail info,
                     message_expires_at = Some (t_now' + timedelta_minutes 4)\<rparr>)"
proof -
  have nodup: "get_employe_by_email (pi_userEmail info) d = None"
              "get_employe_by_employee_id (pi_employeeId info) d = None"
    using first by (auto simp: process_personal_info_def split: if_splits)
  have d1: "d1 = add_pending_registration (pi_userEmail info) (model_dump info)
                   (t_now + timedelta_minutes 4)
                   (set_verification_code t_set (pi_userEmail info) token 4 d)"
    using first nodup
    by (auto simp: process_personal_info_def get_verification_code_def Let_def
          split: if_splits option.splits error.splits)
  have emp: "employe d1 = employe d"
    unfolding d1 by (simp add: add_pending_registration_def set_verification_code_def
        split: option.splits)
  have code: "verification_code d1 (lower (pi_userEmail info))
                = Some \<lparr>code = token, code_expires_at = t_set + timedelta_minutes 4\<rparr>"
    unfolding d1 by (simp add: add_pending_registration_def set_verification_code_def
        split: option.splits)
  have nodup1: "get_employe_by_email (pi_userEmail info) d1 = None"
               "get_employe_by_employee_id (pi_employeeId info) d1 = None"
    using nodup emp by (simp_all add: get_employe_by_email_def get_employe_by_employee_id_def)
  show ?thesis
    using nodup1 code tok
    by (auto simp: process_personal_info_def get_verification_code_def Let_def)
qed

subsection \<open>The verification-code store\<close>

text \<open>
  Claim C6. For every identifier, \<^verbatim>\<open>get_verification_code\<close> returns the stored code exactly when
  the time of the read is strictly before the expiry of the entry; otherwise its result is the
  result for an identifier with no entry. The read returns the database it was given: nothing
  is deleted or changed.
\<close>

theorem get_verification_code_expiry:
  "get_verification_code now email d =
     (case verification_code d (lower email) of
        None \<Rightarrow> (None, d)
      | Some entry \<Rightarrow> (if now < code_expires_at entry then Some (code entry) else None, d))"
  by (simp add: get_verification_code_def split: option.splits)

text \<open>
  Claim C7. The claim has the sweep delete every entry with \<^verbatim>\<open>expires_at <= now\<close>. The filter of
  the source is \<^verbatim>\<open>expires_at < now\<close>: a verification code whose expiry is the very time of the
  sweep is expired for \<^verbatim>\<open>get_verification_code\<close> (whose test is \<^verbatim>\<open>expires_at > now\<close>) and is still
  in the table after the sweep; so is a pending registration.
\<close>

theorem cleanup_expired_entries_boundary:
  "fst (get_verification_code 240 ''a@x.com'' (db_with_code 240)) = None
   \<and> verification_code (cleanup_expired_entries 240 (db_with_code 240)) ''a@x.com''
       = Some \<lparr>code = ''a1b2c3'', code_expires_at = 240\<rparr>
   \<and> fst (get_pending_registration 240 ''a@x.com'' db_code_pending) = None
   \<and> pending_registration (cleanup_expired_entries 240 db_code_pending) ''a@x.com''
       = pending_registration db_code_pending ''a@x.com''
   \<and> pending_registration db_code_pending ''a@x.com'' \<noteq> None"
  by (simp add: cleanup_expired_entries_def db_with_code_def db_code_pending_def empty_db_def
        get_verification_code_def get_pending_registration_def lower_example)

subsection \<open>The registration steps\<close>

text \<open>
  Claim C4, as amended. \<^verbatim>\<open>process_personal_info\<close> fails with status 400 (not 409) and leaves the
  database as it was when the e-mail or the employee code belongs to an employee. When neither
  does, it fails with status 429 and leaves the database as it was when a verification code
  for the e-mail is stored, is not the empty text and has not expired. When neither does, the
  stored code has reached its expiry and the e-mail collaborator returns, the same call
  succeeds: it stores the new code and the pending registration and answers with the expiry.
\<close>

theorem process_personal_info_guards:
  "(get_employe_by_email (pi_userEmail info) d \<noteq> None
      \<or> get_employe_by_employee_id (pi_employeeId info) d \<noteq> None \<longrightarrow>
      process_personal_info send_email token t_get t_now t_set info d
        = (Inl (HTTPException HTTP_400_BAD_REQUEST
                 (if get_employe_by_email (pi_userEmail info) d \<noteq> None
                  then ''L'email est deja enregistre''
                  else ''L'ID d'employe est deja enregistre'')), d))
   \<and> (get_employe_by_email (pi_userEmail info) d = None
      \<and> get_employe_by_employee_id (pi_employeeId info) d = None
      \<and> verification_code d (lower (pi_userEmail info)) = Some entry
      \<and> t_get < code_expires_at entry \<and> code entry \<noteq> [] \<longrightarrow>
      process_personal_info send_email token t_get t_now t_set info d
        = (Inl (HTTPException HTTP_429_TOO_MANY_REQUESTS
                 ''Un code a deja ete envoye, veuillez patienter''), d))
   \<and> (get_employe_by_email (pi_userEmail info) d = None
      \<and> get_employe_by_employee_id (pi_employeeId info) d = None
      \<and> verification_code d (lower (pi_userEmail info)) = Some entry
      \<and> code_expires_at entry \<le> t_get
      \<and> send_email (pi_userEmail info) ''Code de verification BioTrack''
           (''Votre code de verification est : '' @ token @ [CHR 0x0A] @ ''Validite : 4 minutes.'')
         = None \<longrightarrow>
      process_personal_info send_email token t_get t_now t_set info d
        = (Inr \<lparr>message = ''Code envoye a '' @ pi_userEmail info,
                message_expires_at = Some (t_now + timedelta_minutes 4)\<rparr>,
           add_pending_registration (pi_userEmail info) (model_dump info)
             (t_now + timedelta_minutes 4)
             (set_verification_code t_set (pi_userEmail info) token 4 d)))"
  by (auto simp: process_personal_info_def get_verification_code_def Let_def)

theorem process_personal_info_guards_witness:
  "process_personal_info mail_ok ''ffffff'' 0 0 0 example_info db_with_employe
     = (Inl (HTTPException HTTP_400_BAD_REQUEST ''L'email est deja enregistre''), db_with_employe)
   \<and> process_personal_info mail_ok ''ffffff'' 100 101 102 example_info (db_with_code 240)
     = (Inl (HTTPException HTTP_429_TOO_MANY_REQUESTS
               ''Un code a deja ete envoye, veuillez patienter''), db_with_code 240)
   \<and> fst (process_personal_info mail_ok ''ffffff'' 240 241 242 example_info (db_with_code 240))
     = Inr \<lparr>message = ''Code envoye a A@x.com'', message_expires_at = Some 240000241\<rparr>"
  using process_personal_info_guards [where info = example_info and send_email = mail_ok
      and token = "''ffffff''" and t_get = 0 and t_now = 0 and t_set = 0
      and d = db_with_employe]
    process_personal_info_guards [where info = example_info and send_email = mail_ok
      and token = "''ffffff''" and t_get = 100 and t_now = 101 and t_set = 102
      and d = "db_with_code 240" and entry = "\<lparr>code = ''a1b2c3'', code_expires_at = 240\<rparr>"]
    process_personal_info_guards [where info = example_info and send_email = mail_ok
      and token = "''ffffff''" and t_get = 240 and t_now = 241 and t_set = 242
      and d = "db_with_code 240" and entry = "\<lparr>code = ''a1b2c3'', code_expires_at = 240\<rparr>"]
  by (simp add: get_employe_by_email_def get_employe_by_employee_id_def example_info_def
        empty_db_def db_with_code_def db_with_employe_def lower_example mail_ok_def
        timedelta_minutes_def)

text \<open>
  The claim C4 as stated has the duplicate fail with Conflict. For an e-mail that belongs to
  an employee the exception carries \<^verbatim>\<open>HTTP_400_BAD_REQUEST\<close>, which is not \<^verbatim>\<open>HTTP_409_CONFLICT\<close>.
\<close>

theorem process_personal_info_counterexample:
  "process_personal_info mail_ok ''a1b2c3'' 0 0 0 example_info db_with_employe
     = (Inl (HTTPException HTTP_400_BAD_REQUEST ''L'email est deja enregistre''), db_with_employe)
   \<and> HTTP_400_BAD_REQUEST \<noteq> HTTP_409_CONFLICT"
  by (simp add: process_personal_info_def get_employe_by_email_def example_info_def empty_db_def
        db_with_employe_def lower_example HTTP_400_BAD_REQUEST_def HTTP_409_CONFLICT_def)

text \<open>
  Claim C5. When a verification code for the e-mail is stored and has not expired, a call of
  \<^verbatim>\<open>verify_user_email\<close> with another code fails with status 400 and returns the database it was
  given: the stored code and the pending registration, its status included, are unchanged.
\<close>

theorem verify_user_email_wrong_code:
  assumes "verification_code d (lower (uv_email v)) = Some entry"
      and "t_code < code_expires_at entry"
      and "uv_code v \<noteq> code entry"
  shows "verify_user_email t_code t_pending v d =
           (Inl (HTTPException HTTP_400_BAD_REQUEST
                  (if code entry = [] then ''Code introuvable ou expire'' else ''Code incorrect'')),
            d)"
  using assms by (auto simp: verify_user_email_def get_verification_code_def)

theorem verify_user_email_wrong_code_witness:
  "verify_user_email 10 11 \<lparr>uv_email = ''A@x.com'', uv_code = ''000000''\<rparr> db_code_pending
     = (Inl (HTTPException HTTP_400_BAD_REQUEST ''Code incorrect''), db_code_pending)"
  using verify_user_email_wrong_code [where v = "\<lparr>uv_email = ''A@x.com'', uv_code = ''000000''\<rparr>"
      and d = db_code_pending and entry = "\<lparr>code = ''a1b2c3'', code_expires_at = 240\<rparr>"
      and t_code = 10 and t_pending = 11]
  by (simp add: db_code_pending_def empty_db_def lower_example)

text \<open>
  Claim C9. When the stored code has not expired and is the code of the request, and
  \<^verbatim>\<open>get_pending_registration\<close> finds no pending registration for the e-mail, \<^verbatim>\<open>verify_user_email\<close>
  fails with status 400 and returns the database it was given; a later read of the code, at
  any time before its expiry, still returns it.
\<close>

theorem verify_user_email_no_pending:
  assumes "verification_code d (lower (uv_email v)) = Some entry"
      and "t_code < code_expires_at entry"
      and "uv_code v = code entry"
      and "fst (get_pending_registration t_pending (uv_email v) d) = None"
  shows "verify_user_email t_code t_pending v d =
           (Inl (HTTPException HTTP_400_BAD_REQUEST
                  (if code entry = [] then ''Code introuvable ou expire''
                   else ''Inscription introuvable'')), d)
         \<and> (\<forall>t. t < code_expires_at entry \<longrightarrow>
               fst (get_verification_code t (uv_email v)
                     (snd (verify_user_email t_code t_pending v d))) = Some (code entry))"
  using assms
  by (auto simp: verify_user_email_def get_verification_code_def get_pending_registration_def
        split: option.splits if_splits)

theorem verify_user_email_no_pending_witness:
  "verify_user_email 10 11 \<lparr>uv_email = ''A@x.com'', uv_code = ''a1b2c3''\<rparr> (db_with_code 240)
     = (Inl (HTTPException HTTP_400_BAD_REQUEST ''Inscription introuvable''), db_with_code 240)
   \<and> fst (get_verification_code 239 ''A@x.com''
        (snd (verify_user_email 10 11 \<lparr>uv_email = ''A@x.com'', uv_code = ''a1b2c3''\<rparr>
               (db_with_code 240)))) = Some ''a1b2c3''"
  using verify_user_email_no_pending [where v = "\<lparr>uv_email = ''A@x.com'', uv_code = ''a1b2c3''\<rparr>"
      and d = "db_with_code 240" and entry = "\<lparr>code = ''a1b2c3'', code_expires_at = 240\<rparr>"
      and t_code = 10 and t_pending = 11]
  by (simp add: db_with_code_def empty_db_def lower_example get_pending_registration_def
        get_verification_code_def)

text \<open>
  Claim C2, as amended. \<^verbatim>\<open>get_pending_state\<close> returns the database it was given. When there is
  no pending registration that has not expired, it fails with status 400 (not 404). When there
  is one and its personal information is set, the label is the one of the chain of priorities
  \<open>priority_step\<close>, and the other fields are those of the record.
\<close>

theorem get_pending_state_priority:
  "snd (get_pending_state now email d) = d
   \<and> (fst (get_pending_registration now email d) = None \<longrightarrow>
      get_pending_state now email d =
        (Inl (HTTPException HTTP_400_BAD_REQUEST ''Aucune inscription en cours''), d))
   \<and> (\<forall>p info. fst (get_pending_registration now email d) = Some p
         \<and> personal_info_json p = Some info \<longrightarrow>
      get_pending_state now email d =
        (Inr \<lparr>step = priority_step p, state_user_email = email,
              state_personal_info = personal_info_json p,
              state_company_info = company_info_json p,
              state_role = role_assigned p,
              state_expires_at = Some (expires_at p)\<rparr>, d))"
  by (auto simp: get_pending_state_def get_pending_registration_def priority_step_def Let_def
        status_of_def truthy_dict_def dict_get_def split: option.splits if_splits)

theorem get_pending_state_priority_witness:
  "get_pending_state 5 ''A@x.com'' db_admin_pending
     = (Inr \<lparr>step = ''final'', state_user_email = ''A@x.com'',
             state_personal_info = Some [(''status'', JStr ''email_verified'')],
             state_company_info = Some [(''companyName'', JStr ''Acme'')],
             state_role = Some ''admin'', state_expires_at = Some 9\<rparr>, db_admin_pending)
   \<and> get_pending_state 9 ''A@x.com'' db_admin_pending
     = (Inl (HTTPException HTTP_400_BAD_REQUEST ''Aucune inscription en cours''),
        db_admin_pending)"
  using get_pending_state_priority [where now = 5 and email = "''A@x.com''"
      and d = db_admin_pending]
    get_pending_state_priority [where now = 9 and email = "''A@x.com''" and d = db_admin_pending]
  by (simp add: get_pending_registration_def lower_example priority_step_def status_of_def
        dict_get_def truthy_dict_def db_admin_pending_def empty_db_def)

text \<open>
  The claim C2 as stated has the call fail with NotFound. With no pending registration the
  exception carries \<^verbatim>\<open>HTTP_400_BAD_REQUEST\<close>, which is not \<^verbatim>\<open>HTTP_404_NOT_FOUND\<close>.
\<close>

theorem get_pending_state_counterexample:
  "get_pending_state 0 ''a@x.com'' empty_db
     = (Inl (HTTPException HTTP_400_BAD_REQUEST ''Aucune inscription en cours''), empty_db)
   \<and> HTTP_400_BAD_REQUEST \<noteq> HTTP_404_NOT_FOUND"
  by (simp add: get_pending_state_def get_pending_registration_def empty_db_def
        HTTP_400_BAD_REQUEST_def HTTP_404_NOT_FOUND_def)

text \<open>
  Claim C1. The claim is about a call of \<^verbatim>\<open>complete_registration\<close> that succeeds. On a
  registration with a verified e-mail, a group that exists and no position, the call replaces
  the pending record by the marker \<^verbatim>\<open>pending_fingerprint_validation\<close> with an expiry one day
  after the second read of the clock, and \<^verbatim>\<open>get_pending_state\<close> then reports the step
  \<^verbatim>\<open>fingerprint_validation\<close>; but the call itself ends in the validation error of the response,
  and the table of employees is as before: the employee was never created.
\<close>

theorem complete_registration_raises:
  "fst (complete_registration 100 200 500 501 final_data verified_db)
     = Inl (ValidationError ''validation error for EmployeResponse'')
   \<and> employe (snd (complete_registration 100 200 500 501 final_data verified_db)) = []
   \<and> pending_registration (snd (complete_registration 100 200 500 501 final_data verified_db))
        ''a@x.com''
     = Some \<lparr>personal_info_json = Some [(''status'', JStr ''pending_fingerprint_validation'')],
             company_info_json = None, role_assigned = Some ''employee'',
             expires_at = 501 + timedelta_days 1\<rparr>
   \<and> fst (get_pending_state 502 ''a@x.com''
          (snd (complete_registration 100 200 500 501 final_data verified_db)))
     = Inr \<lparr>step = ''fingerprint_validation'', state_user_email = ''a@x.com'',
            state_personal_info = Some [(''status'', JStr ''pending_fingerprint_validation'')],
            state_company_info = None, state_role = Some ''employee'',
            state_expires_at = Some (501 + timedelta_days 1)\<rparr>"
proof -
  have r: "complete_registration 100 200 500 501 final_data verified_db
    = (Inl (ValidationError ''validation error for EmployeResponse''),
       verified_db\<lparr>pending_registration := [''a@x.com'' \<mapsto>
          \<lparr>personal_info_json = Some [(''status'', JStr ''pending_fingerprint_validation'')],
           company_info_json = None, role_assigned = Some ''employee'',
           expires_at = 501 + timedelta_days 1\<rparr>]\<rparr>)"
    by (simp add: complete_registration_def get_pending_registration_def final_data_def
          verified_db_def empty_db_def lower_example truthy_dict_def status_of_def dict_get_def
          resolve_poste_def resolve_entreprise_def get_groupe_by_id_def model_validate_def
          delete_pending_registration_def add_pending_registration_def)
  show ?thesis
    unfolding r
    by (simp add: verified_db_def empty_db_def get_pending_state_def get_pending_registration_def
          lower_example truthy_dict_def status_of_def dict_get_def timedelta_days_def)
qed

subsection \<open>The notification manager\<close>

text \<open>
  Claim C3, as amended. No exception that is an \<^verbatim>\<open>Exception\<close> leaves \<^verbatim>\<open>send_to_company\<close>. For a
  company with no entry the call changes nothing, creates no entry and delivers nothing. For a
  company with connections, when no attempt raises something that the handler does not take,
  every connection of the list is tried on its own; the connections whose attempt succeeded
  receive the text, in the order of the list, and are exactly the ones left in the list
  afterwards; the entry is removed when none is left; the entries of the other companies are
  unchanged. When an attempt raises something that is not an \<^verbatim>\<open>Exception\<close> (the cancellation of
  the task at \<^verbatim>\<open>await ws.send_text\<close>), the first such exception leaves the function: the
  connections after it are not tried and nothing is disconnected.
\<close>

theorem send_to_company_fan_out:
  "(\<forall>e. send_to_company send_text c event data conns = Inl e \<longrightarrow> \<not> is_exception e)
   \<and> (conns c = None \<longrightarrow> send_to_company send_text c event data conns = Inr (conns, []))
   \<and> (\<forall>l. conns c = Some l \<and> l \<noteq> [] \<and> (\<forall>x\<in>set l. \<not> escapes send_text event data x) \<longrightarrow>
         (\<exists>delivered.
            send_to_company send_text c event data conns =
              Inr (conns(c := (if filter (delivers send_text event data) l = [] then None
                               else Some (filter (delivers send_text event data) l))),
                   delivered)
            \<and> map fst delivered = filter (delivers send_text event data) l))
   \<and> (\<forall>pre ws rest js e.
         conns c = Some (pre @ ws # rest) \<and> (\<forall>x\<in>set pre. \<not> escapes send_text event data x)
         \<and> json_dumps (PyDict [(''event'', PyStr event), (''data'', data)]) = Inr js
         \<and> send_text ws js = Some e \<and> \<not> is_exception e \<longrightarrow>
         send_to_company send_text c event data conns = Inl e)"
proof (intro conjI allI impI)
  fix e
  assume "send_to_company send_text c event data conns = Inl e"
  then show "\<not> is_exception e" by (rule send_to_company_Inl)
next
  assume "conns c = None"
  then show "send_to_company send_text c event data conns = Inr (conns, [])"
    by (simp add: send_to_company_def)
next
  fix l
  assume "conns c = Some l \<and> l \<noteq> [] \<and> (\<forall>x\<in>set l. \<not> escapes send_text event data x)"
  then have "conns c = Some l" and "l \<noteq> []" and "\<forall>x\<in>set l. \<not> escapes send_text event data x"
    by simp_all
  from send_to_company_Some [where conns = conns and c = c and l = l and st = send_text
      and ev = event and data = data, OF this]
  show "\<exists>delivered.
          send_to_company send_text c event data conns =
            Inr (conns(c := (if filter (delivers send_text event data) l = [] then None
                             else Some (filter (delivers send_text event data) l))),
                 delivered)
          \<and> map fst delivered = filter (delivers send_text event data) l"
    by (simp add: entry_of_def comp_def)
next
  fix pre ws rest js e
  assume a: "conns c = Some (pre @ ws # rest) \<and> (\<forall>x\<in>set pre. \<not> escapes send_text event data x)
         \<and> json_dumps (PyDict [(''event'', PyStr event), (''data'', data)]) = Inr js
         \<and> send_text ws js = Some e \<and> \<not> is_exception e"
  then have "broadcast send_text event data (pre @ ws # rest) ([], []) = Inl e"
    by (intro broadcast_escapes [where js = js]) simp_all
  then show "send_to_company send_text c event data conns = Inl e"
    using a by (simp add: send_to_company_def)
qed

theorem send_to_company_fan_out_witness:
  "send_to_company flaky ''acme'' ''notification'' (PyDict [(''id'', PyUUID ''u-1'')])
      [''acme'' \<mapsto> [1, 2, 3]]
     = Inr ([''acme'' \<mapsto> [1, 3]],
            [(1, JObj [(''event'', JStr ''notification''), (''data'', JObj [(''id'', JStr ''u-1'')])]),
             (3, JObj [(''event'', JStr ''notification''), (''data'', JObj [(''id'', JStr ''u-1'')])])])
   \<and> send_to_company flaky ''acme'' ''notification'' PyNone [''acme'' \<mapsto> [2]]
     = Inr (Map.empty, [])
   \<and> send_to_company flaky ''other'' ''notification'' PyNone [''acme'' \<mapsto> [2]]
     = Inr ([''acme'' \<mapsto> [2]], [])
   \<and> send_to_company cancelled ''acme'' ''notification'' PyNone [''acme'' \<mapsto> [5, 2, 4]]
     = Inl (CancelledError [])"
  using send_to_company_fan_out [where send_text = flaky and c = "''acme''"
      and event = "''notification''" and data = "PyDict [(''id'', PyUUID ''u-1'')]"
      and conns = "[''acme'' \<mapsto> [1, 2, 3]]"]
    send_to_company_fan_out [where send_text = flaky and c = "''acme''"
      and event = "''notification''" and data = PyNone and conns = "[''acme'' \<mapsto> [2]]"]
    send_to_company_fan_out [where send_text = flaky and c = "''other''"
      and event = "''notification''" and data = PyNone and conns = "[''acme'' \<mapsto> [2]]"]
    send_to_company_fan_out [where send_text = cancelled and c = "''acme''"
      and event = "''notification''" and data = PyNone and conns = "[''acme'' \<mapsto> [5, 2, 4]]"]
  by (simp add: send_to_company_def flaky_def cancelled_def disconnect_def)

text \<open>
  The claim C3 as stated has \<^verbatim>\<open>send_to_company\<close> never raise. The handler of the loop is
  \<^verbatim>\<open>except Exception\<close>: when the task is cancelled while the second of three connections is
  awaited, \<^verbatim>\<open>asyncio.CancelledError\<close> leaves the function.
\<close>

theorem send_to_company_counterexample:
  "send_to_company cancelled ''acme'' ''notification'' PyNone [''acme'' \<mapsto> [1, 2, 3]]
     = Inl (CancelledError [])
   \<and> \<not> is_exception (CancelledError [])"
  by (simp add: send_to_company_def cancelled_def)

text \<open>
  Claim C10. When the payload contains a value that is neither native to JSON nor a UUID, the
  serialisation raises \<^verbatim>\<open>TypeError\<close>, so for a company with connections every attempt fails:
  \<^verbatim>\<open>send_to_company\<close> returns without raising, has delivered nothing, and the entry of the
  company is gone, whatever \<^verbatim>\<open>send_text\<close> would have done.
\<close>

theorem unserializable_payload_empties_channel:
  assumes "unserializable data" and "conns c = Some l" and "l \<noteq> []"
  shows "json_dumps (PyDict [(''event'', PyStr event), (''data'', data)])
           = Inl (TypeError ''Type not serializable'')
         \<and> send_to_company send_text c event data conns = Inr (conns(c := None), [])"
proof -
  have j: "json_dumps (PyDict [(''event'', PyStr event), (''data'', data)])
             = Inl (TypeError ''Type not serializable'')"
    using assms(1) json_dumps_unserializable(1) [of data] by simp
  then have none: "filter (delivers send_text event data) l = []"
    by (simp add: delivers_def)
  have held: "\<forall>x\<in>set l. \<not> escapes send_text event data x"
    using j by (simp add: escapes_def)
  show ?thesis
    using j none send_to_company_Some [where conns = conns and c = c and l = l
        and st = send_text and ev = event and data = data, OF assms(2,3) held]
    by (simp add: entry_of_def)
qed

theorem unserializable_payload_empties_channel_witness:
  "json_dumps (PyDict [(''event'', PyStr ''notification''),
                      (''data'', PyDict [(''id'', PyUUID ''u-1''),
                                         (''created_at'', PyObject ''datetime'')])])
     = Inl (TypeError ''Type not serializable'')
   \<and> send_to_company healthy ''acme'' ''notification''
        (PyDict [(''id'', PyUUID ''u-1''), (''created_at'', PyObject ''datetime'')])
        [''acme'' \<mapsto> [1, 2, 3], ''other'' \<mapsto> [4]]
     = Inr ([''other'' \<mapsto> [4]], [])"
proof -
  have "[''acme'' \<mapsto> [1, 2, 3::nat], ''other'' \<mapsto> [4]](''acme'' := None) = [''other'' \<mapsto> [4]]"
    by (rule ext) simp
  then show ?thesis
    using unserializable_payload_empties_channel [where send_text = healthy and c = "''acme''"
      and event = "''notification''"
      and data = "PyDict [(''id'', PyUUID ''u-1''), (''created_at'', PyObject ''datetime'')]"
      and conns = "[''acme'' \<mapsto> [1, 2, 3], ''other'' \<mapsto> [4]]" and l = "[1, 2, 3]"]
    by simp
qed

text \<open>
  Claim C8. Along every sequence of \<^verbatim>\<open>connect\<close>, \<^verbatim>\<open>disconnect\<close> and \<^verbatim>\<open>send_to_company\<close>, whatever the
  outcomes of the handshakes and of the deliveries, the invariant is kept: a connection is in
  the list of at most one company and at most once. This holds from every state that
  satisfies the invariant of the manager, and so from a manager with an empty dictionary,
  whatever the states of the sockets. And \<^verbatim>\<open>disconnect\<close> of a connection that is not in the list
  of the company leaves the registry as it was.
\<close>

theorem registry_invariant:
  "(manager_inv m \<longrightarrow> manager_inv (run m ops))
   \<and> registry_inv (connections (run (new_manager st) ops))
   \<and> ((\<forall>l. conns c = Some l \<longrightarrow> ws \<notin> set l) \<longrightarrow> disconnect c ws conns = conns)"
proof (intro conjI impI)
  assume "manager_inv m"
  then show "manager_inv (run m ops)" by (rule manager_inv_run)
next
  have "manager_inv (run (new_manager st) ops)"
    using manager_inv_new by (rule manager_inv_run)
  then show "registry_inv (connections (run (new_manager st) ops))"
    by (simp add: manager_inv_def)
next
  assume "\<forall>l. conns c = Some l \<longrightarrow> ws \<notin> set l"
  then show "disconnect c ws conns = conns"
    by (auto simp: disconnect_def split: option.splits)
qed

theorem registry_invariant_witness:
  "manager_inv (new_manager fresh_sockets)
   \<and> manager_inv (run (new_manager fresh_sockets)
        [Connect Completes ''a'' 7, Connect Completes ''b'' 7])
   \<and> registry_inv (connections (run (new_manager fresh_sockets)
        [Connect Completes ''a'' 7, Connect Completes ''b'' 7]))
   \<and> run (new_manager fresh_sockets) [Connect Completes ''a'' 7, Connect Completes ''b'' 7]
       = \<lparr>connections = [''a'' \<mapsto> [7]], application_state = fresh_sockets(7 := CONNECTED)\<rparr>
   \<and> disconnect ''b'' 1 [''a'' \<mapsto> [1]] = [''a'' \<mapsto> [1]]"
proof -
  have i: "manager_inv (new_manager fresh_sockets)" by (rule manager_inv_new)
  have a1: "apply_op (new_manager fresh_sockets) (Connect Completes ''a'' 7)
      = \<lparr>connections = [''a'' \<mapsto> [7]], application_state = fresh_sockets(7 := CONNECTED)\<rparr>"
    by (simp add: new_manager_def fresh_sockets_def connect_def accept_def)
  have a2: "apply_op \<lparr>connections = [''a'' \<mapsto> [7]],
                       application_state = fresh_sockets(7 := CONNECTED)\<rparr>
              (Connect Completes ''b'' 7)
      = \<lparr>connections = [''a'' \<mapsto> [7]], application_state = fresh_sockets(7 := CONNECTED)\<rparr>"
    by (simp add: connect_def accept_def)
  have r: "run (new_manager fresh_sockets) [Connect Completes ''a'' 7, Connect Completes ''b'' 7]
      = \<lparr>connections = [''a'' \<mapsto> [7]], application_state = fresh_sockets(7 := CONNECTED)\<rparr>"
    by (simp only: run.simps a1 a2)
  have d: "disconnect ''b'' 1 [''a'' \<mapsto> [1::nat]] = [''a'' \<mapsto> [1]]"
    by (simp add: disconnect_def)
  from i registry_invariant [where m = "new_manager fresh_sockets" and st = fresh_sockets
      and ops = "[Connect Completes ''a'' 7, Connect Completes ''b'' 7]"
      and conns = "[''a'' \<mapsto> [1]]" and c = "''b''" and ws = 1]
  have "manager_inv (run (new_manager fresh_sockets)
          [Connect Completes ''a'' 7, Connect Completes ''b'' 7])
        \<and> registry_inv (connections (run (new_manager fresh_sockets)
          [Connect Completes ''a'' 7, Connect Completes ''b'' 7]))"
    by blast
  then show ?thesis using i r d by blast
qed

end
